theory Spec2Isabelle
  imports
    Main
    "HOL-Library.Word"
    "HOL-Library.AList"
    "HOL-Library.Char_ord"
    "HOL-Library.List_Lexorder"
begin

unbundle bit_operations_syntax

section \<open>The \<open>format\<close> package of swag: walking, filtering and rewriting Go files\<close>

text \<open>
  The development embeds \<^verbatim>\<open>format/format.go\<close>: \<open>Build\<close>, \<open>visit\<close>,
  \<open>excludeDir\<close>, \<open>excludeFile\<close>, \<open>format\<close>, \<open>write\<close> and \<open>Run\<close>.
  Go strings and byte slices are byte sequences, here \<open>char list\<close> (a \<open>char\<close> is one byte).
  The functions of Go's standard library that the package calls (\<open>strings\<close>,
  \<open>path/filepath\<close>, \<open>os\<close>, \<open>io\<close>) are the environment of the program; they are
  modelled after their Unix implementations in the first three subsections.
\<close>

subsection \<open>Package \<open>strings\<close>\<close>

type_synonym bytes = "char list"

text \<open>\<open>strings.Split(s, sep)\<close> for a one-byte separator: \<open>Split("", ",")\<close> is the
  one-element list holding the empty string.\<close>

fun strings_Split :: "string \<Rightarrow> char \<Rightarrow> string list" where
  "strings_Split [] sep = [[]]"
| "strings_Split (c # cs) sep =
     (if c = sep then [] # strings_Split cs sep
      else (case strings_Split cs sep of
              [] \<Rightarrow> [[c]]
            | x # xs \<Rightarrow> (c # x) # xs))"

text \<open>\<open>strings.Join(elems, sep)\<close>.\<close>

fun strings_Join :: "string list \<Rightarrow> string \<Rightarrow> string" where
  "strings_Join [] sep = []"
| "strings_Join [x] sep = x"
| "strings_Join (x # y # ys) sep = x @ sep @ strings_Join (y # ys) sep"

text \<open>\<open>strings.HasSuffix\<close>, as Go writes it:
  \<^verbatim>\<open>len(s) >= len(suffix) && s[len(s)-len(suffix):] == suffix\<close>.\<close>

definition strings_HasSuffix :: "string \<Rightarrow> string \<Rightarrow> bool" where
  "strings_HasSuffix s suffix \<longleftrightarrow>
     length suffix \<le> length s \<and> drop (length s - length suffix) s = suffix"

text \<open>\<open>strings.ToLower\<close> on the bytes \<open>A\<close>..\<open>Z\<close>. Go lowers every Unicode letter; the
  only use in this package compares the result with the ASCII suffix \<open>_test.go\<close>, none of
  whose letters is the lower case of a letter outside ASCII, and an ASCII byte is never part
  of a longer UTF-8 sequence, so the bytewise map decides the same suffix test. Adding \<open>'a' - 'A' = 32\<close> to a
  byte between 65 and 90 sets its bit 5.\<close>

definition toLowerByte :: "char \<Rightarrow> char" where
  "toLowerByte c =
     (let n = (of_char c :: nat) in
      if 65 \<le> n \<and> n \<le> 90
      then (case c of Char b0 b1 b2 b3 b4 b5 b6 b7 \<Rightarrow> Char b0 b1 b2 b3 b4 True b6 b7)
      else c)"

definition strings_ToLower :: "string \<Rightarrow> string" where
  "strings_ToLower s = map toLowerByte s"

text \<open>\<open>strings.TrimSpace\<close> on the ASCII white space (tab, line feed, vertical tab, form
  feed, carriage return, space); the two-byte encodings of U+0085 and U+00A0 and the other
  Unicode spaces are left alone by this model.\<close>

definition isSpace :: "char \<Rightarrow> bool" where
  "isSpace c \<longleftrightarrow> (of_char c :: nat) \<in> {9, 10, 11, 12, 13, 32}"

definition strings_TrimSpace :: "string \<Rightarrow> string" where
  "strings_TrimSpace s = rev (dropWhile isSpace (rev (dropWhile isSpace s)))"

subsection \<open>Package \<open>path/filepath\<close> (Unix: the separator is \<open>/\<close>, no volume names)\<close>

definition IsPathSeparator :: "char \<Rightarrow> bool" where
  "IsPathSeparator c \<longleftrightarrow> c = CHR ''/''"

text \<open>The last path element up to the end of the string: what the backward scans of
  \<open>Base\<close>, \<open>Ext\<close> and \<open>Dir\<close> walk over.\<close>

definition lastElem :: "string \<Rightarrow> string" where
  "lastElem p = rev (takeWhile (\<lambda>c. \<not> IsPathSeparator c) (rev p))"

text \<open>\<open>filepath.Base\<close>: the empty path gives \<open>.\<close>, trailing separators are stripped, a
  path of separators only gives \<open>/\<close>. The result is never empty.\<close>

definition filepath_Base :: "string \<Rightarrow> string" where
  "filepath_Base path =
     (if path = [] then ''.''
      else let p = rev (dropWhile IsPathSeparator (rev path)) in
           if p = [] then ''/'' else lastElem p)"

text \<open>\<open>filepath.Ext\<close>: the scan goes backwards from the end and stops at the first
  separator (no extension) or the first dot (the extension starts there).\<close>

definition filepath_Ext :: "string \<Rightarrow> string" where
  "filepath_Ext path =
     (let stop = (\<lambda>c. IsPathSeparator c \<or> c = CHR ''.'') in
      case dropWhile (\<lambda>c. \<not> stop c) (rev path) of
        [] \<Rightarrow> []
      | c # _ \<Rightarrow> if c = CHR ''.''
                 then c # rev (takeWhile (\<lambda>c. \<not> stop c) (rev path))
                 else [])"

text \<open>\<open>filepath.Clean\<close>. Go edits the path in a buffer; the same result is computed here on
  the list of path elements: empty elements and \<open>.\<close> are dropped, \<open>..\<close> removes the element
  before it, is dropped at the root of a rooted path, and is kept at the front of a relative
  one. \<open>out\<close> holds the elements kept so far, last one first.\<close>

fun cleanElems :: "bool \<Rightarrow> string list \<Rightarrow> string list \<Rightarrow> string list" where
  "cleanElems rooted out [] = rev out"
| "cleanElems rooted out (e # es) =
     (if e = [] \<or> e = ''.'' then cleanElems rooted out es
      else if e = ''..'' then
        (case out of
           [] \<Rightarrow> if rooted then cleanElems rooted out es
                 else cleanElems rooted [e] es
         | x # xs \<Rightarrow> if x = ''..'' then cleanElems rooted (e # out) es
                     else cleanElems rooted xs es)
      else cleanElems rooted (e # out) es)"

definition filepath_Clean :: "string \<Rightarrow> string" where
  "filepath_Clean path =
     (case path of
        [] \<Rightarrow> ''.''
      | c # _ \<Rightarrow>
          let rooted = IsPathSeparator c;
              body = strings_Join (cleanElems rooted [] (strings_Split path CHR ''/'')) ''/''
          in if rooted then CHR ''/'' # body
             else if body = [] then ''.'' else body)"

text \<open>\<open>filepath.Join\<close> of two elements: leading empty elements are ignored, the rest is
  joined with the separator and cleaned; all elements empty gives the empty string.\<close>

definition filepath_Join :: "string \<Rightarrow> string \<Rightarrow> string" where
  "filepath_Join a b =
     (if a \<noteq> [] then filepath_Clean (a @ ''/'' @ b)
      else if b \<noteq> [] then filepath_Clean b
      else [])"

text \<open>\<open>filepath.Dir\<close>: everything up to and including the last separator, cleaned.\<close>

definition filepath_Dir :: "string \<Rightarrow> string" where
  "filepath_Dir path = filepath_Clean (rev (dropWhile (\<lambda>c. \<not> IsPathSeparator c) (rev path)))"

subsection \<open>Errors\<close>

text \<open>Go's \<open>error\<close> values that this program can see: the error numbers of the system
  calls, the sentinels of \<open>filepath.Walk\<close>, the errors of the formatter, and
  \<^verbatim>\<open>fmt.Errorf("fmt: %w", err)\<close> as the constructor \<open>FmtWrap\<close>. A panic (a method
  called on a nil \<open>os.FileInfo\<close>) unwinds through every caller in this package, none of which
  recovers; it is the value \<open>NilPointerPanic\<close>, which every caller hands on unchanged.
  \<open>FuelExhausted\<close> is not a Go error: it is what the model of the recursive walk returns
  when the recursion bound it is given is too small.\<close>

datatype error =
    ENOENT | EACCES | EIO | EISDIR | ENOTDIR | EEXIST | ENOSPC | EBADF | EINVAL
  | ErrPatternHasSeparator
  | ErrShortWrite
  | SkipDir
  | SkipAll
  | FormatterError string
  | FmtWrap error
  | NilPointerPanic
  | FuelExhausted

text \<open>\<open>os.IsNotExist\<close>.\<close>

definition IsNotExist :: "error option \<Rightarrow> bool" where
  "IsNotExist err \<longleftrightarrow> err = Some ENOENT"

subsection \<open>Package \<open>os\<close>: a file system with failure injection\<close>

text \<open>
  A \<open>FileMode\<close> is Go's 32-bit mode word: permission bits in the low nine bits, the
  directory bit at position 31. A file-system entry is a regular file (content, mode) or a
  directory (mode). The file system is an association list from cleaned path to entry, so
  that a directory can be enumerated; an entry is a child of the directory whose path joined
  with the entry's base name gives the entry's path. Every call resolves its path argument
  with \<open>filepath.Clean\<close> (no symbolic links, no working-directory changes), and the empty
  path names nothing.

  \<open>faults\<close> is the failure schedule: every fallible system call takes the head of the list;
  \<open>Some e\<close> makes the call fail with \<open>e\<close> and no effect, \<open>None\<close> or the empty list lets
  it run. \<open>rands\<close> are the strings \<open>os.CreateTemp\<close> draws for temporary names.
  \<open>trace\<close> records every system call made, in order.
\<close>

type_synonym FileMode = "32 word"

definition ModeDir :: FileMode where "ModeDir = 0x80000000"
definition ModeSetuid :: FileMode where "ModeSetuid = 0x800000"
definition ModeSetgid :: FileMode where "ModeSetgid = 0x400000"
definition ModeSticky :: FileMode where "ModeSticky = 0x100000"
definition ModePerm :: FileMode where "ModePerm = 0x1FF"

text \<open>\<open>FileMode.Perm\<close>.\<close>

definition Perm :: "FileMode \<Rightarrow> FileMode" where
  "Perm m = m AND ModePerm"

datatype node = File bytes FileMode | Directory FileMode

record FileInfo =
  IsDir :: bool
  Mode :: FileMode

datatype event =
    EvStat string | EvLstat string | EvReadFile string | EvReadDir string
  | EvCreateTemp string string | EvWrite string | EvClose string
  | EvChmod string FileMode | EvRename string string | EvRemove string

record world =
  files :: "(string \<times> node) list"
  faults :: "error option list"
  rands :: "string list"
  trace :: "event list"

definition lookup :: "world \<Rightarrow> string \<Rightarrow> node option" where
  "lookup w path = (if path = [] then None else map_of (files w) (filepath_Clean path))"

text \<open>Entering a system call: the call is recorded and the next scheduled fault, if any, is
  taken.\<close>

definition syscall :: "event \<Rightarrow> world \<Rightarrow> error option \<times> world" where
  "syscall ev w =
     (case faults w of
        [] \<Rightarrow> (None, w\<lparr>trace := trace w @ [ev]\<rparr>)
      | x # xs \<Rightarrow> (x, w\<lparr>faults := xs, trace := trace w @ [ev]\<rparr>))"

definition infoOf :: "node \<Rightarrow> FileInfo" where
  "infoOf n =
     (case n of
        File c m \<Rightarrow> \<lparr>IsDir = False, Mode = m\<rparr>
      | Directory m \<Rightarrow> \<lparr>IsDir = True, Mode = m OR ModeDir\<rparr>)"

definition statAs :: "event \<Rightarrow> string \<Rightarrow> world \<Rightarrow> (error + FileInfo) \<times> world" where
  "statAs ev path w =
     (case syscall ev w of
        (Some e, w1) \<Rightarrow> (Inl e, w1)
      | (None, w1) \<Rightarrow>
          (case lookup w1 path of
             None \<Rightarrow> (Inl ENOENT, w1)
           | Some n \<Rightarrow> (Inr (infoOf n), w1)))"

definition os_Stat :: "string \<Rightarrow> world \<Rightarrow> (error + FileInfo) \<times> world" where
  "os_Stat path w = statAs (EvStat path) path w"

definition os_Lstat :: "string \<Rightarrow> world \<Rightarrow> (error + FileInfo) \<times> world" where
  "os_Lstat path w = statAs (EvLstat path) path w"

definition os_ReadFile :: "string \<Rightarrow> world \<Rightarrow> (error + bytes) \<times> world" where
  "os_ReadFile path w =
     (case syscall (EvReadFile path) w of
        (Some e, w1) \<Rightarrow> (Inl e, w1)
      | (None, w1) \<Rightarrow>
          (case lookup w1 path of
             None \<Rightarrow> (Inl ENOENT, w1)
           | Some (Directory m) \<Rightarrow> (Inl EISDIR, w1)
           | Some (File c m) \<Rightarrow> (Inr c, w1)))"

text \<open>\<open>os.CreateTemp(dir, pattern)\<close>: a pattern with a separator is refused; the random
  string replaces the last \<open>*\<close> of the pattern or is appended to it; the file is opened with
  \<open>O_CREATE|O_EXCL\<close> and mode \<open>0600\<close> (\<open>0x180\<close>), and a name that exists is retried with the next
  random string (Go gives up after 10000 tries, the model when \<open>rands\<close> is used up). The
  directory must exist.\<close>

definition prefixAndSuffix :: "string \<Rightarrow> string \<times> string" where
  "prefixAndSuffix pattern =
     (if CHR ''*'' \<in> set pattern
      then (rev (tl (dropWhile (\<lambda>c. c \<noteq> CHR ''*'') (rev pattern))),
            rev (takeWhile (\<lambda>c. c \<noteq> CHR ''*'') (rev pattern)))
      else (pattern, []))"

definition joinPath :: "string \<Rightarrow> string \<Rightarrow> string" where
  "joinPath dir name =
     (if dir \<noteq> [] \<and> IsPathSeparator (last dir) then dir @ name else dir @ ''/'' @ name)"

fun tempName :: "world \<Rightarrow> string \<Rightarrow> string \<Rightarrow> string list \<Rightarrow> (string \<times> string list) option" where
  "tempName w pre suf [] = None"
| "tempName w pre suf (r # rs) =
     (if lookup w (pre @ r @ suf) = None then Some (pre @ r @ suf, rs)
      else tempName w pre suf rs)"

definition os_CreateTemp :: "string \<Rightarrow> string \<Rightarrow> world \<Rightarrow> (error + string) \<times> world" where
  "os_CreateTemp dir pattern w =
     (case syscall (EvCreateTemp dir pattern) w of
        (Some e, w1) \<Rightarrow> (Inl e, w1)
      | (None, w1) \<Rightarrow>
          if \<exists>c \<in> set pattern. IsPathSeparator c then (Inl ErrPatternHasSeparator, w1)
          else
            let d = (if dir = [] then ''/tmp'' else dir);
                (pre, suf) = prefixAndSuffix pattern
            in (case lookup w1 d of
                  None \<Rightarrow> (Inl ENOENT, w1)
                | Some (File c m) \<Rightarrow> (Inl ENOTDIR, w1)
                | Some (Directory m) \<Rightarrow>
                    (case tempName w1 (joinPath d pre) suf (rands w1) of
                       None \<Rightarrow> (Inl EEXIST, w1\<lparr>rands := []\<rparr>)
                     | Some (name, rs) \<Rightarrow>
                         (Inr name,
                          w1\<lparr>files := AList.update (filepath_Clean name) (File [] 0x180) (files w1),
                             rands := rs\<rparr>))))"

text \<open>\<open>(*os.File).Write\<close> and \<open>Close\<close> on the file opened under \<open>name\<close>. A write that
  fails leaves the file as it was.\<close>

definition os_Write :: "string \<Rightarrow> bytes \<Rightarrow> world \<Rightarrow> error option \<times> world" where
  "os_Write name b w =
     (case syscall (EvWrite name) w of
        (Some e, w1) \<Rightarrow> (Some e, w1)
      | (None, w1) \<Rightarrow>
          (case lookup w1 name of
             Some (File c m) \<Rightarrow>
               (None, w1\<lparr>files := AList.update (filepath_Clean name) (File (c @ b) m) (files w1)\<rparr>)
           | _ \<Rightarrow> (Some EBADF, w1)))"

definition os_Close :: "string \<Rightarrow> world \<Rightarrow> error option \<times> world" where
  "os_Close name w = syscall (EvClose name) w"

text \<open>\<open>os.Chmod\<close> passes \<open>syscallMode(mode)\<close> to the kernel: the permission bits and the
  setuid, setgid and sticky bits.\<close>

definition syscallMode :: "FileMode \<Rightarrow> FileMode" where
  "syscallMode m = m AND (ModePerm OR ModeSetuid OR ModeSetgid OR ModeSticky)"

definition os_Chmod :: "string \<Rightarrow> FileMode \<Rightarrow> world \<Rightarrow> error option \<times> world" where
  "os_Chmod name m w =
     (case syscall (EvChmod name m) w of
        (Some e, w1) \<Rightarrow> (Some e, w1)
      | (None, w1) \<Rightarrow>
          (case lookup w1 name of
             None \<Rightarrow> (Some ENOENT, w1)
           | Some (File c m0) \<Rightarrow>
               (None, w1\<lparr>files := AList.update (filepath_Clean name) (File c (syscallMode m)) (files w1)\<rparr>)
           | Some (Directory m0) \<Rightarrow>
               (None, w1\<lparr>files := AList.update (filepath_Clean name) (Directory (syscallMode m)) (files w1)\<rparr>)))"

text \<open>\<open>os.Rename\<close> of a regular file: it replaces a regular file at the new path and fails
  when the new path is a directory. This program renames regular files only; renaming a
  directory is refused by the model.\<close>

definition os_Rename :: "string \<Rightarrow> string \<Rightarrow> world \<Rightarrow> error option \<times> world" where
  "os_Rename oldpath newpath w =
     (case syscall (EvRename oldpath newpath) w of
        (Some e, w1) \<Rightarrow> (Some e, w1)
      | (None, w1) \<Rightarrow>
          (case lookup w1 oldpath of
             None \<Rightarrow> (Some ENOENT, w1)
           | Some (Directory m) \<Rightarrow> (Some EINVAL, w1)
           | Some (File c m) \<Rightarrow>
               if newpath = [] then (Some ENOENT, w1)
               else (case lookup w1 newpath of
                       Some (Directory m') \<Rightarrow> (Some EISDIR, w1)
                     | _ \<Rightarrow>
                         (None,
                          w1\<lparr>files := AList.update (filepath_Clean newpath) (File c m)
                                        (AList.delete (filepath_Clean oldpath) (files w1))\<rparr>))))"

text \<open>\<open>os.Remove\<close>. The program discards its result, and the failure schedule does not
  reach it: it removes the name when the name exists.\<close>

definition os_Remove :: "string \<Rightarrow> world \<Rightarrow> error option \<times> world" where
  "os_Remove name w =
     (let w1 = w\<lparr>trace := trace w @ [EvRemove name]\<rparr> in
      case lookup w1 name of
        None \<Rightarrow> (Some ENOENT, w1)
      | Some n \<Rightarrow> (None, w1\<lparr>files := AList.delete (filepath_Clean name) (files w1)\<rparr>))"

text \<open>\<open>readDirNames\<close> of \<open>path/filepath\<close>: the names of the entries of a directory,
  sorted as \<open>sort.Strings\<close> sorts them (bytewise).\<close>

definition isEntryOf :: "string \<Rightarrow> string \<Rightarrow> bool" where
  "isEntryOf dir p \<longleftrightarrow>
     (let name = filepath_Base p in
      name \<noteq> ''.'' \<and> name \<noteq> ''..'' \<and> \<not> (\<exists>c \<in> set name. IsPathSeparator c) \<and>
      filepath_Join dir name = p)"

definition readDirNames :: "string \<Rightarrow> world \<Rightarrow> (error + string list) \<times> world" where
  "readDirNames dirname w =
     (case syscall (EvReadDir dirname) w of
        (Some e, w1) \<Rightarrow> (Inl e, w1)
      | (None, w1) \<Rightarrow>
          (case lookup w1 dirname of
             None \<Rightarrow> (Inl ENOENT, w1)
           | Some (File c m) \<Rightarrow> (Inl ENOTDIR, w1)
           | Some (Directory m) \<Rightarrow>
               (Inr (sort (map filepath_Base
                            (filter (isEntryOf (filepath_Clean dirname)) (map fst (files w1))))),
                w1)))"

subsection \<open>\<open>filepath.Walk\<close>\<close>

text \<open>
  \<open>filepath.Walk\<close> and its recursive helper \<open>walk\<close>, after Go's source. The walk
  function receives the path, the \<open>FileInfo\<close> (\<open>None\<close> is Go's nil, passed when
  \<open>Lstat\<close> failed) and the error of \<open>Lstat\<close> or of reading the directory. A directory
  is enumerated before the walk function sees it. \<open>SkipDir\<close> returned for a directory
  skips that directory only; any other error ends the walk.

  The recursion follows the file system, which the walk function changes as it goes, so the
  model bounds the nesting depth by a natural number; with the bound used up it returns
  \<open>FuelExhausted\<close>. \<open>walkNames\<close> is the loop over the names of one directory.
\<close>

type_synonym WalkFunc = "string \<Rightarrow> FileInfo option \<Rightarrow> error option \<Rightarrow> world \<Rightarrow> error option \<times> world"

fun walk :: "nat \<Rightarrow> WalkFunc \<Rightarrow> string \<Rightarrow> FileInfo \<Rightarrow> world \<Rightarrow> error option \<times> world"
  and walkNames :: "nat \<Rightarrow> WalkFunc \<Rightarrow> string \<Rightarrow> string list \<Rightarrow> world \<Rightarrow> error option \<times> world"
where
  "walk 0 walkFn path info w = (Some FuelExhausted, w)"
| "walk (Suc n) walkFn path info w =
     (if \<not> IsDir info then walkFn path (Some info) None w
      else
        (case readDirNames path w of
           (r, w1) \<Rightarrow>
             (let err = (case r of Inl e \<Rightarrow> Some e | Inr ns \<Rightarrow> None);
                  names = (case r of Inl e \<Rightarrow> [] | Inr ns \<Rightarrow> ns)
              in case walkFn path (Some info) err w1 of
                   (err1, w2) \<Rightarrow>
                     if err \<noteq> None \<or> err1 \<noteq> None then (err1, w2)
                     else walkNames n walkFn path names w2)))"
| "walkNames n walkFn path [] w = (None, w)"
| "walkNames n walkFn path (name # names) w =
     (let filename = filepath_Join path name in
      case os_Lstat filename w of
        (Inl e, w1) \<Rightarrow>
          (case walkFn filename None (Some e) w1 of
             (err, w2) \<Rightarrow>
               if err \<noteq> None \<and> err \<noteq> Some SkipDir then (err, w2)
               else walkNames n walkFn path names w2)
      | (Inr fileInfo, w1) \<Rightarrow>
          (case walk n walkFn filename fileInfo w1 of
             (err, w2) \<Rightarrow>
               if err \<noteq> None \<and> (\<not> IsDir fileInfo \<or> err \<noteq> Some SkipDir) then (err, w2)
               else walkNames n walkFn path names w2))"

definition filepath_Walk :: "nat \<Rightarrow> string \<Rightarrow> WalkFunc \<Rightarrow> world \<Rightarrow> error option \<times> world" where
  "filepath_Walk fuel root fn w =
     (case (case os_Lstat root w of
              (Inl e, w1) \<Rightarrow> fn root None (Some e) w1
            | (Inr info, w1) \<Rightarrow> walk fuel fn root info w1) of
        (err, w2) \<Rightarrow> if err = Some SkipDir \<or> err = Some SkipAll then (None, w2) else (err, w2))"

subsection \<open>Package \<open>io\<close>: readers and writers\<close>

text \<open>An \<open>io.Reader\<close> is the bytes it delivers and the error it ends with (\<open>None\<close> for
  a plain end of file); \<open>io.ReadAll\<close> returns both. An \<open>io.Writer\<close> is the bytes it has
  accepted and the room it has left (\<open>None\<close>: unbounded); a write larger than the room
  accepts what fits and fails.\<close>

record Reader =
  pending :: bytes
  readErr :: "error option"

record Writer =
  written :: bytes
  room :: "nat option"

definition io_ReadAll :: "Reader \<Rightarrow> bytes \<times> error option" where
  "io_ReadAll r = (pending r, readErr r)"

definition Writer_Write :: "Writer \<Rightarrow> bytes \<Rightarrow> nat \<times> error option \<times> Writer" where
  "Writer_Write dst b =
     (case room dst of
        None \<Rightarrow> (length b, None, dst\<lparr>written := written dst @ b\<rparr>)
      | Some k \<Rightarrow>
          if length b \<le> k
          then (length b, None, dst\<lparr>written := written dst @ b, room := Some (k - length b)\<rparr>)
          else (k, Some ENOSPC, dst\<lparr>written := written dst @ take k b, room := Some 0\<rparr>))"

text \<open>\<open>io.Copy(dst, bytes.NewReader(b))\<close>: \<open>bytes.Reader\<close> has \<open>WriteTo\<close>, which
  makes one \<open>Write\<close> of all its bytes, and none when it is empty.\<close>

definition io_Copy :: "Writer \<Rightarrow> bytes \<Rightarrow> error option \<times> Writer" where
  "io_Copy dst b =
     (if b = [] then (None, dst)
      else (case Writer_Write dst b of
              (m, err, dst') \<Rightarrow>
                (if m \<noteq> length b \<and> err = None then Some ErrShortWrite else err, dst')))"

subsection \<open>Package \<open>format\<close>\<close>

text \<open>
  \<open>Format\<close> holds the formatter and the exclusion map. \<open>swag.Formatter\<close> lives in the
  parent package, outside the sources embedded here; its method \<open>Format(fileName, contents)\<close>
  is a parameter of the model, a function from path and bytes to bytes or an error.
  \<open>New\<close> takes it as an argument where Go calls \<open>swag.NewFormatter()\<close>.
\<close>

record Format =
  formatter :: "string \<Rightarrow> bytes \<Rightarrow> error + bytes"
  exclude :: "string \<rightharpoonup> bool"

definition New :: "(string \<Rightarrow> bytes \<Rightarrow> error + bytes) \<Rightarrow> Format" where
  "New fm = \<lparr>formatter = fm, exclude = Map.empty\<rparr>"

record Config =
  SearchDir :: string
  Excludes :: string
  MainFile :: string

definition defaultExcludes :: "string list" where
  "defaultExcludes = [''docs'', ''vendor'']"

text \<open>\<^verbatim>\<open>f.exclude[path]\<close>: a key that is absent reads as \<open>false\<close>.\<close>

definition excluded :: "Format \<Rightarrow> string \<Rightarrow> bool" where
  "excluded f path \<longleftrightarrow> (case exclude f path of None \<Rightarrow> False | Some b \<Rightarrow> b)"

text \<open>\<open>excludeDir\<close>. \<^verbatim>\<open>filepath.Base(path)[0]\<close> is in range, since \<open>filepath.Base\<close>
  never returns the empty string (\<open>filepath_Base_not_empty\<close> below).\<close>

definition excludeDir :: "Format \<Rightarrow> string \<Rightarrow> bool" where
  "excludeDir f path \<longleftrightarrow>
     excluded f path \<or>
     filepath_Base path ! 0 = CHR ''.'' \<and> length (filepath_Base path) > 1"

definition excludeFile :: "Format \<Rightarrow> string \<Rightarrow> bool" where
  "excludeFile f path \<longleftrightarrow>
     excluded f path \<or>
     strings_HasSuffix (strings_ToLower path) ''_test.go'' \<or>
     filepath_Ext path \<noteq> ''.go''"

text \<open>\<open>write\<close>. \<open>writeTemp\<close> is the part of the body after the \<open>defer\<close>: write, close,
  chmod, rename, each returning at its error. \<open>write\<close> runs the deferred
  \<^verbatim>\<open>os.Remove(f.Name())\<close> on the way out of that part, whatever it returned, and
  discards the result of the removal.\<close>

definition writeTemp :: "string \<Rightarrow> string \<Rightarrow> bytes \<Rightarrow> FileMode \<Rightarrow> world \<Rightarrow> error option \<times> world" where
  "writeTemp name path contents m w =
     (case os_Write name contents w of
        (Some e, w1) \<Rightarrow> (Some e, w1)
      | (None, w1) \<Rightarrow>
          (case os_Close name w1 of
             (Some e, w2) \<Rightarrow> (Some e, w2)
           | (None, w2) \<Rightarrow>
               (case os_Chmod name m w2 of
                  (Some e, w3) \<Rightarrow> (Some e, w3)
                | (None, w3) \<Rightarrow> os_Rename name path w3)))"

definition "write" :: "string \<Rightarrow> bytes \<Rightarrow> world \<Rightarrow> error option \<times> world" where
  "write path contents w =
     (case os_Stat path w of
        (Inl e, w1) \<Rightarrow> (Some e, w1)
      | (Inr originalFileInfo, w1) \<Rightarrow>
          (case os_CreateTemp (filepath_Dir path) (filepath_Base path) w1 of
             (Inl e, w2) \<Rightarrow> (Some e, w2)
           | (Inr name, w2) \<Rightarrow>
               (case writeTemp name path contents (Mode originalFileInfo) w2 of
                  (err, w3) \<Rightarrow> (err, snd (os_Remove name w3)))))"

text \<open>\<open>format\<close>. The formatter is given a copy of the bytes read; \<open>bytes.Equal\<close> is
  equality of the byte sequences.\<close>

definition format :: "Format \<Rightarrow> string \<Rightarrow> world \<Rightarrow> error option \<times> world" where
  "format f path w =
     (case os_ReadFile path w of
        (Inl e, w1) \<Rightarrow> (Some e, w1)
      | (Inr original, w1) \<Rightarrow>
          (case formatter f path original of
             Inl e \<Rightarrow> (Some e, w1)
           | Inr formatted \<Rightarrow>
               if original = formatted then (None, w1)
               else write path formatted w1))"

text \<open>\<open>visit\<close>. The parameter \<open>err\<close> is never read. \<open>fileInfo.IsDir()\<close> on a nil
  \<open>fileInfo\<close> panics.\<close>

definition visit :: "Format \<Rightarrow> WalkFunc" where
  "visit f path fileInfo err w =
     (case fileInfo of
        None \<Rightarrow> (Some NilPointerPanic, w)
      | Some info \<Rightarrow>
          if IsDir info \<and> excludeDir f path then (Some SkipDir, w)
          else if excludeFile f path then (None, w)
          else (case format f path w of
                  (Some e, w1) \<Rightarrow> (Some (FmtWrap e), w1)
                | (None, w1) \<Rightarrow> (None, w1)))"

text \<open>\<open>Build\<close>, loop by loop. \<open>checkSearchDirs\<close> is the first loop: a root that
  \<open>os.Stat\<close> reports as not existing ends \<open>Build\<close>; any other outcome of \<open>os.Stat\<close>
  goes on to register the default exclusions under that root. \<open>addExcludes\<close> is the second
  loop and \<open>walkSearchDirs\<close> the third. The exclusion map lives in \<open>f\<close> and keeps what
  was added when \<open>Build\<close> returns, so \<open>Build\<close> returns the \<open>Format\<close> as well.\<close>

definition addDefaultExcludes :: "Format \<Rightarrow> string \<Rightarrow> Format" where
  "addDefaultExcludes f searchDir =
     foldl (\<lambda>g d. g\<lparr>exclude := (exclude g)(filepath_Join searchDir d \<mapsto> True)\<rparr>) f defaultExcludes"

fun checkSearchDirs :: "Format \<Rightarrow> string list \<Rightarrow> world \<Rightarrow> error option \<times> Format \<times> world" where
  "checkSearchDirs f [] w = (None, f, w)"
| "checkSearchDirs f (searchDir # rest) w =
     (case os_Stat searchDir w of
        (Inl e, w1) \<Rightarrow>
          if IsNotExist (Some e) then (Some (FmtWrap e), f, w1)
          else checkSearchDirs (addDefaultExcludes f searchDir) rest w1
      | (Inr info, w1) \<Rightarrow> checkSearchDirs (addDefaultExcludes f searchDir) rest w1)"

definition addExcludes :: "Format \<Rightarrow> string list \<Rightarrow> Format" where
  "addExcludes f fis =
     foldl (\<lambda>g fi. let fi' = strings_TrimSpace fi in
                    if fi' \<noteq> [] then g\<lparr>exclude := (exclude g)(filepath_Clean fi' \<mapsto> True)\<rparr> else g)
           f fis"

fun walkSearchDirs :: "nat \<Rightarrow> Format \<Rightarrow> string list \<Rightarrow> world \<Rightarrow> error option \<times> world" where
  "walkSearchDirs fuel f [] w = (None, w)"
| "walkSearchDirs fuel f (searchDir # rest) w =
     (case filepath_Walk fuel searchDir (visit f) w of
        (Some e, w1) \<Rightarrow> (Some e, w1)
      | (None, w1) \<Rightarrow> walkSearchDirs fuel f rest w1)"

definition Build :: "nat \<Rightarrow> Format \<Rightarrow> Config \<Rightarrow> world \<Rightarrow> error option \<times> Format \<times> world" where
  "Build fuel f config w =
     (let searchDirs = strings_Split (SearchDir config) CHR '','' in
      case checkSearchDirs f searchDirs w of
        (Some e, f1, w1) \<Rightarrow> (Some e, f1, w1)
      | (None, f1, w1) \<Rightarrow>
          (let f2 = addExcludes f1 (strings_Split (Excludes config) CHR '','') in
           case walkSearchDirs fuel f2 searchDirs w1 of
             (err, w2) \<Rightarrow> (err, f2, w2)))"

text \<open>\<open>Run\<close>.\<close>

definition Run :: "Format \<Rightarrow> Reader \<Rightarrow> Writer \<Rightarrow> error option \<times> Writer" where
  "Run f src dst =
     (case io_ReadAll src of
        (contents, Some e) \<Rightarrow> (Some e, dst)
      | (contents, None) \<Rightarrow>
          (case formatter f [] contents of
             Inl e \<Rightarrow> (Some e, dst)
           | Inr result \<Rightarrow> io_Copy dst result))"

subsection \<open>Example data\<close>

text \<open>Two formatters and a project tree, used to run the definitions on concrete input.
  \<open>plainFormatter\<close> returns its input; \<open>dropSpaces\<close> removes every space. The tree is the
  one of the specification's example (a hidden, a documentation and a vendor directory
  beside \<open>main.go\<close>), with a test file, a text file and an already formatted file added.\<close>

definition plainFormatter :: "string \<Rightarrow> bytes \<Rightarrow> error + bytes" where
  "plainFormatter fileName contents = Inr contents"

definition dropSpaces :: "string \<Rightarrow> bytes \<Rightarrow> error + bytes" where
  "dropSpaces fileName contents = Inr (filter (\<lambda>c. c \<noteq> CHR '' '') contents)"

definition projWorld :: world where
  "projWorld =
     \<lparr>files =
        [(''/proj'', Directory 0x1ED),
         (''/proj/.git'', Directory 0x1ED), (''/proj/.git/y.go'', File ''y  y'' 0x1A4),
         (''/proj/docs'', Directory 0x1ED), (''/proj/docs/z.go'', File ''z  z'' 0x1A4),
         (''/proj/vendor'', Directory 0x1ED), (''/proj/vendor/x.go'', File ''x  x'' 0x1A4),
         (''/proj/main.go'', File ''a  b'' 0x1A4),
         (''/proj/ok.go'', File ''ok'' 0x1A4),
         (''/proj/handler_test.go'', File ''t  t'' 0x1A4),
         (''/proj/notes.txt'', File ''n  n'' 0x1A4)],
      faults = [], rands = [''123'', ''456''], trace = []\<rparr>"

text \<open>\<open>stampFormatter\<close> puts the file name in front of the content: a formatter whose
  result depends on the path it is given.\<close>

definition stampFormatter :: "string \<Rightarrow> bytes \<Rightarrow> error + bytes" where
  "stampFormatter fileName contents = Inr (fileName @ '':'' @ contents)"

text \<open>A tree whose directory \<open>/proj/sub\<close> cannot be enumerated: the fifth system call of
  \<open>Build\<close> on \<open>/proj\<close> (after \<open>Stat\<close>, \<open>Lstat\<close> and \<open>ReadDir\<close> of \<open>/proj\<close> and
  \<open>Lstat\<close> of \<open>/proj/sub\<close>) is the reading of \<open>/proj/sub\<close>, and it fails with
  \<open>EACCES\<close>.\<close>

definition deniedWorld :: world where
  "deniedWorld =
     \<lparr>files =
        [(''/proj'', Directory 0x1ED),
         (''/proj/sub'', Directory 0x1C0),
         (''/proj/sub/b.go'', File ''b  b'' 0x1A4)],
      faults = [None, None, None, None, Some EACCES], rands = [''123''], trace = []\<rparr>"


definition projConfig :: Config where
  "projConfig = \<lparr>SearchDir = ''/proj'', Excludes = [], MainFile = []\<rparr>"




definition mainOnly :: Config where
  "mainOnly = \<lparr>SearchDir = ''/proj/main.go'', Excludes = [], MainFile = []\<rparr>"

definition mainReader :: Reader where
  "mainReader = \<lparr>pending = ''a  b'', readErr = None\<rparr>"

definition emptyWriter :: Writer where
  "emptyWriter = \<lparr>written = [], room = None\<rparr>"

subsection \<open>Vocabulary of the properties\<close>

text \<open>The paths given to \<open>os.ReadFile\<close> in a trace, in order: the files on which the
  per-file pipeline \<open>format\<close> was started.\<close>

fun readsIn :: "event list \<Rightarrow> string list" where
  "readsIn [] = []"
| "readsIn (EvReadFile p # evs) = p # readsIn evs"
| "readsIn (ev # evs) = readsIn evs"



section \<open>Properties\<close>

subsection \<open>Paths and system calls\<close>


lemma syscall_files [simp]: "files (snd (syscall ev w)) = files w"
  by (simp add: syscall_def split: list.splits)

lemma syscall_rands [simp]: "rands (snd (syscall ev w)) = rands w"
  by (simp add: syscall_def split: list.splits)

lemma syscall_trace [simp]: "trace (snd (syscall ev w)) = trace w @ [ev]"
  by (simp add: syscall_def split: list.splits)

lemma syscall_lookup [simp]: "lookup (snd (syscall ev w)) p = lookup w p"
  by (simp add: lookup_def)

lemma syscall_no_faults: "faults w = [] \<Longrightarrow> syscall ev w = (None, w\<lparr>trace := trace w @ [ev]\<rparr>)"
  by (simp add: syscall_def)

lemma statAs_world:
  "statAs ev path w = (r, w1) \<Longrightarrow>
     files w1 = files w \<and> rands w1 = rands w \<and> trace w1 = trace w @ [ev]"
  by (auto simp: statAs_def syscall_def lookup_def split: list.splits option.splits)

lemma os_Stat_Inr:
  "os_Stat path w = (Inr info, w1) \<Longrightarrow>
     files w1 = files w \<and> rands w1 = rands w \<and> trace w1 = trace w @ [EvStat path] \<and>
     (\<exists>n. lookup w path = Some n \<and> info = infoOf n)"
  by (auto simp: os_Stat_def statAs_def syscall_def lookup_def split: list.splits option.splits)

lemma os_ReadFile_world:
  "os_ReadFile path w = (r, w1) \<Longrightarrow>
     files w1 = files w \<and> rands w1 = rands w \<and> trace w1 = trace w @ [EvReadFile path]"
  by (auto simp: os_ReadFile_def syscall_def lookup_def split: list.splits option.splits node.splits)

lemma tempName_Some:
  "tempName w pre suf rs = Some (name, rs') \<Longrightarrow> lookup w name = None \<and> (pre \<noteq> [] \<longrightarrow> name \<noteq> [])"
  by (induction rs) (auto split: if_splits)

lemma joinPath_not_empty: "dir \<noteq> [] \<Longrightarrow> joinPath dir name \<noteq> []"
  by (simp add: joinPath_def)

lemma os_CreateTemp_Inr:
  "os_CreateTemp dir pattern w = (Inr name, w1) \<Longrightarrow>
     lookup w name = None \<and> name \<noteq> [] \<and>
     files w1 = AList.update (filepath_Clean name) (File [] 0x180) (files w) \<and>
     trace w1 = trace w @ [EvCreateTemp dir pattern]"
proof -
  assume a: "os_CreateTemp dir pattern w = (Inr name, w1)"
  obtain r w0 where s: "syscall (EvCreateTemp dir pattern) w = (r, w0)" by force
  have w0: "files w0 = files w" "trace w0 = trace w @ [EvCreateTemp dir pattern]"
    "lookup w0 name = lookup w name"
    using syscall_files [of "EvCreateTemp dir pattern" w]
      syscall_trace [of "EvCreateTemp dir pattern" w]
      syscall_lookup [of "EvCreateTemp dir pattern" w name] by (simp_all add: s)
  define d where "d = (if dir = [] then ''/tmp'' else dir)"
  have d: "d \<noteq> []" by (simp add: d_def)
  obtain pre suf where ps: "prefixAndSuffix pattern = (pre, suf)" by force
  from a obtain rs where t: "tempName w0 (joinPath d pre) suf (rands w0) = Some (name, rs)"
    and w1: "files w1 = AList.update (filepath_Clean name) (File [] 0x180) (files w0)"
      "trace w1 = trace w0"
    unfolding os_CreateTemp_def d_def
    by (auto simp: Let_def ps s split: option.splits node.splits if_splits)
  from tempName_Some [OF t] joinPath_not_empty [OF d]
  have "lookup w0 name = None" "name \<noteq> []" by auto
  then show ?thesis using w1 w0 by simp
qed

lemma os_Write_None:
  "os_Write name b w = (None, w1) \<Longrightarrow>
     (\<exists>c m. lookup w name = Some (File c m) \<and>
        files w1 = AList.update (filepath_Clean name) (File (c @ b) m) (files w))"
  by (auto simp: os_Write_def syscall_def lookup_def
      split: list.splits option.splits node.splits if_splits)

lemma os_Write_Some:
  "os_Write name b w = (Some e, w1) \<Longrightarrow> files w1 = files w"
  by (auto simp: os_Write_def syscall_def lookup_def
      split: list.splits option.splits node.splits if_splits)

lemma os_Close_files: "os_Close name w = (r, w1) \<Longrightarrow> files w1 = files w"
  by (auto simp: os_Close_def syscall_def split: list.splits)

lemma os_Chmod_None:
  "os_Chmod name m w = (None, w1) \<Longrightarrow>
     (\<exists>n. lookup w name = Some n \<and>
        files w1 = AList.update (filepath_Clean name)
                     (case n of File c m0 \<Rightarrow> File c (syscallMode m)
                              | Directory m0 \<Rightarrow> Directory (syscallMode m)) (files w))"
  by (auto simp: os_Chmod_def syscall_def lookup_def
      split: list.splits option.splits node.splits if_splits)

lemma os_Chmod_Some:
  "os_Chmod name m w = (Some e, w1) \<Longrightarrow> files w1 = files w"
  by (auto simp: os_Chmod_def syscall_def lookup_def
      split: list.splits option.splits node.splits if_splits)

lemma os_Rename_None:
  "os_Rename old new w = (None, w1) \<Longrightarrow>
     (\<exists>c m. lookup w old = Some (File c m) \<and> new \<noteq> [] \<and>
        (\<forall>m'. lookup w new \<noteq> Some (Directory m')) \<and>
        files w1 = AList.update (filepath_Clean new) (File c m)
                     (AList.delete (filepath_Clean old) (files w)))"
  by (auto simp: os_Rename_def syscall_def lookup_def
      split: list.splits option.splits node.splits if_splits)

lemma os_Rename_Some:
  "os_Rename old new w = (Some e, w1) \<Longrightarrow> files w1 = files w"
  by (auto simp: os_Rename_def syscall_def lookup_def
      split: list.splits option.splits node.splits if_splits)

lemma os_Remove_files:
  "files (snd (os_Remove name w)) =
     (if name = [] then files w else AList.delete (filepath_Clean name) (files w))"
  by (auto simp: os_Remove_def lookup_def Let_def map_of_eq_None_iff split: option.splits)

lemma os_CreateTemp_Inl:
  "os_CreateTemp dir pattern w = (Inl e, w1) \<Longrightarrow> files w1 = files w"
proof -
  assume a: "os_CreateTemp dir pattern w = (Inl e, w1)"
  obtain r w0 where s: "syscall (EvCreateTemp dir pattern) w = (r, w0)" by force
  have w0: "files w0 = files w"
    using syscall_files [of "EvCreateTemp dir pattern" w] by (simp add: s)
  from a have "files w1 = files w0"
    unfolding os_CreateTemp_def
    by (auto simp: Let_def s split: option.splits node.splits if_splits prod.splits)
  then show ?thesis using w0 by simp
qed

lemma lookup_files:
  "name \<noteq> [] \<Longrightarrow> files w = AList.update (filepath_Clean name) X F \<Longrightarrow> lookup w name = Some X"
  by (simp add: lookup_def update_conv')

lemma writeTemp_files:
  assumes t: "map_of F (filepath_Clean name) = None" and n: "name \<noteq> []"
    and w2: "files w2 = AList.update (filepath_Clean name) (File [] m0) F"
    and r: "writeTemp name path contents m w2 = (err, w3)"
  shows "(err \<noteq> None \<longrightarrow> (\<exists>X. files w3 = AList.update (filepath_Clean name) X F)) \<and>
         (err = None \<longrightarrow> path \<noteq> [] \<and>
            files w3 = AList.update (filepath_Clean path) (File contents (syscallMode m)) F)"
proof -
  let ?t = "filepath_Clean name"
  have del: "\<And>X. AList.delete ?t (AList.update ?t X F) = F"
    using t by (simp add: delete_update_same map_of_eq_None_iff)
  obtain r1 w21 where s1: "os_Write name contents w2 = (r1, w21)" by force
  show ?thesis
  proof (cases r1)
    case (Some e)
    then show ?thesis using r s1 w2 os_Write_Some [of name contents w2 e w21]
      by (auto simp: writeTemp_def)
  next
    case None
    note r1 = None
    from os_Write_None [of name contents w2 w21] s1 None lookup_files [OF n w2]
    have f21: "files w21 = AList.update ?t (File contents m0) F"
      using w2 by auto
    obtain r2 w22 where s2: "os_Close name w21 = (r2, w22)" by force
    have f22: "files w22 = AList.update ?t (File contents m0) F"
      using os_Close_files [OF s2] f21 by simp
    show ?thesis
    proof (cases r2)
      case (Some e)
      then show ?thesis using r s1 r1 s2 f22 by (auto simp: writeTemp_def)
    next
      case None
      note r2 = None
      obtain r3 w23 where s3: "os_Chmod name m w22 = (r3, w23)" by force
      show ?thesis
      proof (cases r3)
        case (Some e)
        then show ?thesis using r s1 r1 s2 r2 s3 f22 os_Chmod_Some [of name m w22 e w23]
          by (auto simp: writeTemp_def)
      next
        case None
        note r3 = None
        from os_Chmod_None [of name m w22 w23] s3 None lookup_files [OF n f22]
        have f23: "files w23 = AList.update ?t (File contents (syscallMode m)) F"
          using f22 by auto
        have r': "os_Rename name path w23 = (err, w3)"
          using r s1 r1 s2 r2 s3 r3 by (simp add: writeTemp_def)
        show ?thesis
        proof (cases err)
          case (Some e)
          then show ?thesis using r' f23 os_Rename_Some [of name path w23 e w3] by auto
        next
          case None
          from os_Rename_None [of name path w23 w3] r' None lookup_files [OF n f23]
          show ?thesis using f23 del None by auto
        qed
      qed
    qed
  qed
qed

lemma Perm_syscallMode: "Perm (syscallMode m) = Perm m"
  by (simp add: Perm_def syscallMode_def ModePerm_def ModeSetuid_def ModeSetgid_def
      ModeSticky_def and.assoc)

lemma write_files:
  assumes r: "write path contents w = (err, w')"
  shows "(err \<noteq> None \<longrightarrow> files w' = files w) \<and>
         (err = None \<longrightarrow> (\<exists>info n. fst (os_Stat path w) = Inr info \<and> lookup w path = Some n \<and>
            info = infoOf n \<and>
            files w' = AList.update (filepath_Clean path)
                         (File contents (syscallMode (Mode info))) (files w)))"
proof -
  obtain r0 w1 where s0: "os_Stat path w = (r0, w1)" by force
  have f1: "files w1 = files w" using s0 statAs_world [of "EvStat path" path w r0 w1]
    by (simp add: os_Stat_def)
  show ?thesis
  proof (cases r0)
    case (Inl e)
    then show ?thesis using r s0 f1 by (auto simp: write_def)
  next
    case (Inr info)
    from os_Stat_Inr [of path w info w1] s0 Inr
    obtain n where n: "lookup w path = Some n" "info = infoOf n" by auto
    then have p: "path \<noteq> []" "map_of (files w) (filepath_Clean path) = Some n"
      by (auto simp: lookup_def split: if_splits)
    obtain r1 w2 where s1: "os_CreateTemp (filepath_Dir path) (filepath_Base path) w1 = (r1, w2)"
      by force
    show ?thesis
    proof (cases r1)
      case (Inl e)
      then show ?thesis using r s0 Inr s1 f1 os_CreateTemp_Inl [of _ _ w1 e w2]
        by (auto simp: write_def)
    next
      case (Inr name)
      let ?t = "filepath_Clean name"
      from os_CreateTemp_Inr [of _ _ w1 name w2] s1 Inr
      have c: "lookup w1 name = None" "name \<noteq> []"
        "files w2 = AList.update ?t (File [] 0x180) (files w)"
        using f1 by auto
      then have t: "map_of (files w) ?t = None"
        using f1 by (simp add: lookup_def)
      then have tk: "?t \<notin> fst ` set (files w)" by (simp add: map_of_eq_None_iff)
      have ne: "?t \<noteq> filepath_Clean path" using t p by auto
      obtain e3 w3 where s3: "writeTemp name path contents (Mode info) w2 = (e3, w3)" by force
      have w': "w' = snd (os_Remove name w3)" "err = e3"
        using r s0 \<open>r0 = Inr info\<close> s1 Inr s3 by (auto simp: write_def)
      note wt = writeTemp_files [OF t c(2) c(3) s3]
      show ?thesis
      proof (cases e3)
        case (Some e)
        with wt obtain X where "files w3 = AList.update ?t X (files w)" by auto
        then have "files w' = files w"
          using w' c(2) tk by (simp add: os_Remove_files delete_update_same)
        then show ?thesis using w' Some by simp
      next
        case None
        with wt have "files w3 = AList.update (filepath_Clean path)
            (File contents (syscallMode (Mode info))) (files w)" by auto
        then have "files w' = AList.update (filepath_Clean path)
            (File contents (syscallMode (Mode info))) (files w)"
          using w' c(2) tk ne by (simp add: os_Remove_files delete_update)
        then show ?thesis using w' None n s0 \<open>r0 = Inr info\<close> by simp
      qed
    qed
  qed
qed

subsection \<open>The exclusion rules\<close>




text \<open>
  Claim C6. \<open>excludeFile\<close> holds of a path exactly when the path is in the exclusion map,
  or its lower-cased form ends in \<open>_test.go\<close>, or its extension is not \<open>.go\<close>; and the
  visitor, called on a file that \<open>excludeFile\<close> excludes, returns nil and leaves the world
  as it was, with no system call made.
\<close>

theorem excludeFile_rule:
  "(excludeFile f path \<longleftrightarrow>
      excluded f path \<or> strings_HasSuffix (strings_ToLower path) ''_test.go'' \<or>
      filepath_Ext path \<noteq> ''.go'') \<and>
   (excludeFile f path \<and> \<not> IsDir info \<longrightarrow> visit f path (Some info) err w = (None, w))"
  by (simp add: excludeFile_def visit_def)

theorem excludeFile_rule_witness:
  "excludeFile (New plainFormatter) ''pkg/Handler_TEST.go'' \<and>
   excludeFile (New plainFormatter) ''notes.txt'' \<and>
   \<not> excludeFile (New plainFormatter) ''handler.go'' \<and>
   visit (New plainFormatter) ''notes.txt'' (Some \<lparr>IsDir = False, Mode = 0x1A4\<rparr>) None
     \<lparr>files = [(''notes.txt'', File ''x'' 0x1A4)], faults = [], rands = [], trace = []\<rparr>
   = (None, \<lparr>files = [(''notes.txt'', File ''x'' 0x1A4)], faults = [], rands = [], trace = []\<rparr>)"
  using excludeFile_rule [of "New plainFormatter" "''notes.txt''" "\<lparr>IsDir = False, Mode = 0x1A4\<rparr>" None
     "\<lparr>files = [(''notes.txt'', File ''x'' 0x1A4)], faults = [], rands = [], trace = []\<rparr>"]
    excludeFile_rule [of "New plainFormatter" "''pkg/Handler_TEST.go''"]
    excludeFile_rule [of "New plainFormatter" "''handler.go''"]
  by (simp add: excluded_def New_def strings_HasSuffix_def strings_ToLower_def toLowerByte_def
        filepath_Ext_def IsPathSeparator_def)

subsection \<open>The change gate\<close>

text \<open>
  Claim C3. When the file is read and the formatter returns bytes, \<open>format\<close> compares the
  two byte sequences for equality: when they are equal it returns nil in the world that
  reading left (the same files, one \<open>ReadFile\<close> call recorded, nothing else); when they
  differ it is the call of \<open>write\<close> with the formatted bytes.
\<close>

theorem format_change_gate:
  assumes "os_ReadFile path w = (Inr original, w1)"
    and "formatter f path original = Inr formatted"
  shows "(original = formatted \<longrightarrow> format f path w = (None, w1)) \<and>
         (original \<noteq> formatted \<longrightarrow> format f path w = write path formatted w1) \<and>
         files w1 = files w \<and> trace w1 = trace w @ [EvReadFile path]"
  using assms os_ReadFile_world [OF assms(1)] by (auto simp: format_def)

theorem format_change_gate_witness:
  "fst (os_ReadFile ''/proj/ok.go'' projWorld) = Inr ''ok'' \<and>
   format (New dropSpaces) ''/proj/ok.go'' projWorld =
     (None, snd (os_ReadFile ''/proj/ok.go'' projWorld)) \<and>
   files (snd (os_ReadFile ''/proj/ok.go'' projWorld)) = files projWorld \<and>
   fst (os_ReadFile ''/proj/main.go'' projWorld) = Inr ''a  b'' \<and>
   format (New dropSpaces) ''/proj/main.go'' projWorld =
     write ''/proj/main.go'' ''ab'' (snd (os_ReadFile ''/proj/main.go'' projWorld))"
proof -
  have r1: "fst (os_ReadFile ''/proj/ok.go'' projWorld) = Inr ''ok''"
    by code_simp
  have r2: "fst (os_ReadFile ''/proj/main.go'' projWorld) = Inr ''a  b''"
    by code_simp
  have p1: "os_ReadFile ''/proj/ok.go'' projWorld =
      (Inr ''ok'', snd (os_ReadFile ''/proj/ok.go'' projWorld))"
    using r1 by (metis prod.collapse)
  have p2: "os_ReadFile ''/proj/main.go'' projWorld =
      (Inr ''a  b'', snd (os_ReadFile ''/proj/main.go'' projWorld))"
    using r2 by (metis prod.collapse)
  have f1: "formatter (New dropSpaces) ''/proj/ok.go'' ''ok'' = Inr ''ok''"
    by (simp add: New_def dropSpaces_def)
  have f2: "formatter (New dropSpaces) ''/proj/main.go'' ''a  b'' = Inr ''ab''"
    by (simp add: New_def dropSpaces_def)
  show ?thesis
    using r1 r2 format_change_gate [OF p1 f1] format_change_gate [OF p2 f2] by simp
qed

subsection \<open>The atomic replacement\<close>

text \<open>
  Claim C1. Whatever \<open>write\<close> returns, the file system holds the same names afterwards as
  before, in the same order: no temporary file is left. When \<open>write\<close> returns an error
  (from \<open>Stat\<close>, \<open>CreateTemp\<close>, \<open>Write\<close>, \<open>Close\<close>, \<open>Chmod\<close> or \<open>Rename\<close>, for
  every failure schedule), the file system is the one before the call: every entry, the
  target among them, has its content and mode.
\<close>

theorem write_atomic_on_failure:
  assumes "write path contents w = (err, w')"
  shows "map fst (files w') = map fst (files w) \<and> (err \<noteq> None \<longrightarrow> files w' = files w)"
proof (cases err)
  case None
  from write_files [OF assms] None
  have "\<exists>m n. lookup w path = Some n \<and>
          files w' = AList.update (filepath_Clean path) (File contents m) (files w)"
    by fastforce
  then obtain m n where
    n: "lookup w path = Some n"
    and f: "files w' = AList.update (filepath_Clean path) (File contents m) (files w)"
    by (elim exE conjE)
  from n have "filepath_Clean path \<in> fst ` set (files w)"
    by (auto simp: lookup_def dest: map_of_SomeD intro: rev_image_eqI split: if_splits)
  then show ?thesis using f None by (simp add: update_keys)
next
  case (Some e)
  then show ?thesis using write_files [OF assms] by simp
qed

theorem write_atomic_on_failure_witness:
  "fst (write ''/proj/main.go'' ''ab'' (projWorld\<lparr>faults := [None, None, Some ENOSPC]\<rparr>)) = Some ENOSPC \<and>
   files (snd (write ''/proj/main.go'' ''ab'' (projWorld\<lparr>faults := [None, None, Some ENOSPC]\<rparr>))) =
     files projWorld"
proof -
  have e: "fst (write ''/proj/main.go'' ''ab'' (projWorld\<lparr>faults := [None, None, Some ENOSPC]\<rparr>)) = Some ENOSPC"
    by code_simp
  show ?thesis
    using e write_atomic_on_failure [OF surjective_pairing,
        of "''/proj/main.go''" "''ab''" "projWorld\<lparr>faults := [None, None, Some ENOSPC]\<rparr>"]
    by simp
qed

text \<open>
  Claim C2. When \<open>write\<close> succeeds, the target holds the new content, and its permission
  bits are the permission bits of the \<open>FileInfo\<close> that \<open>os.Stat\<close> returned for the
  target before the call.
\<close>

theorem write_preserves_permission_bits:
  assumes "os_Stat path w = (Inr originalFileInfo, w1)"
    and "write path contents w = (None, w')"
  shows "\<exists>m. lookup w' path = Some (File contents m) \<and> Perm m = Perm (Mode originalFileInfo)"
proof -
  from write_files [OF assms(2)] assms(1)
  have f: "files w' = AList.update (filepath_Clean path)
              (File contents (syscallMode (Mode originalFileInfo))) (files w)"
    and p: "lookup w path \<noteq> None" by auto
  from p have "path \<noteq> []" by (auto simp: lookup_def split: if_splits)
  then have "lookup w' path = Some (File contents (syscallMode (Mode originalFileInfo)))"
    using f by (simp add: lookup_files)
  then show ?thesis by (simp add: Perm_syscallMode)
qed

theorem write_preserves_permission_bits_witness:
  "fst (os_Stat ''/proj/main.go'' projWorld) = Inr \<lparr>IsDir = False, Mode = 0x1A4\<rparr> \<and>
   fst (write ''/proj/main.go'' ''ab'' projWorld) = None \<and>
   (\<exists>m. lookup (snd (write ''/proj/main.go'' ''ab'' projWorld)) ''/proj/main.go'' = Some (File ''ab'' m) \<and>
        Perm m = Perm 0x1A4)"
proof -
  have s: "fst (os_Stat ''/proj/main.go'' projWorld) = Inr \<lparr>IsDir = False, Mode = 0x1A4\<rparr>"
    by code_simp
  have r: "fst (write ''/proj/main.go'' ''ab'' projWorld) = None"
    by code_simp
  have s': "os_Stat ''/proj/main.go'' projWorld =
      (Inr \<lparr>IsDir = False, Mode = 0x1A4\<rparr>, snd (os_Stat ''/proj/main.go'' projWorld))"
    using s by (metis prod.collapse)
  have r': "write ''/proj/main.go'' ''ab'' projWorld = (None, snd (write ''/proj/main.go'' ''ab'' projWorld))"
    using r by (metis prod.collapse)
  show ?thesis
    using s r write_preserves_permission_bits [OF s' r'] by simp
qed

subsection \<open>Missing roots\<close>





subsection \<open>What a walk reads\<close>

lemma readsIn_append [simp]: "readsIn (xs @ ys) = readsIn xs @ readsIn ys"
  by (induction xs rule: readsIn.induct) simp_all














lemma visit_SkipDir:
  "visit f path fileInfo err w = (Some SkipDir, w1) \<Longrightarrow>
     w1 = w \<and> (\<exists>info. fileInfo = Some info \<and> IsDir info \<and> excludeDir f path)"
  by (auto simp: visit_def split: option.splits if_splits prod.splits)











subsection \<open>Errors reported by the walk\<close>

text \<open>
  Claim C7, on the code. \<open>visit\<close> does not look at the error that \<open>filepath.Walk\<close>
  hands it: its result is the same with and without one. In \<open>deniedWorld\<close> the reading of
  the directory \<open>/proj/sub\<close> fails with \<open>EACCES\<close>; \<open>visit\<close> is called with that
  error, finds the path excluded as a file (no \<open>.go\<close> extension) and returns nil, the walk
  goes on, and \<open>Build\<close> returns nil with the failure consumed and the file below
  \<open>/proj/sub\<close> never read. When \<open>Lstat\<close> fails instead, \<open>filepath.Walk\<close> passes a
  nil \<open>FileInfo\<close> and \<open>visit\<close> panics on \<open>fileInfo.IsDir()\<close>.
\<close>

theorem visit_discards_walk_error:
  "visit f path fileInfo (Some e) w = visit f path fileInfo None w \<and>
   fst (Build 3 (New dropSpaces) projConfig deniedWorld) = None \<and>
   faults (snd (snd (Build 3 (New dropSpaces) projConfig deniedWorld))) = [] \<and>
   trace (snd (snd (Build 3 (New dropSpaces) projConfig deniedWorld))) =
     [EvStat ''/proj'', EvLstat ''/proj'', EvReadDir ''/proj'',
      EvLstat ''/proj/sub'', EvReadDir ''/proj/sub''] \<and>
   fst (Build 3 (New dropSpaces) projConfig (projWorld\<lparr>faults := [None, Some EIO]\<rparr>)) =
     Some NilPointerPanic"
proof -
  have 1: "visit f path fileInfo (Some e) w = visit f path fileInfo None w"
    by (simp add: visit_def)
  have 2: "fst (Build 3 (New dropSpaces) projConfig deniedWorld) = None"
    by code_simp
  have 3: "faults (snd (snd (Build 3 (New dropSpaces) projConfig deniedWorld))) = []"
    by code_simp
  have 4: "trace (snd (snd (Build 3 (New dropSpaces) projConfig deniedWorld))) =
     [EvStat ''/proj'', EvLstat ''/proj'', EvReadDir ''/proj'',
      EvLstat ''/proj/sub'', EvReadDir ''/proj/sub'']"
    by code_simp
  have 5: "fst (Build 3 (New dropSpaces) projConfig (projWorld\<lparr>faults := [None, Some EIO]\<rparr>)) =
     Some NilPointerPanic"
    by code_simp
  show ?thesis using 1 2 3 4 5 by blast
qed

subsection \<open>Directories that pass the file check\<close>



lemma lookup_trace_update [simp]: "lookup (w\<lparr>trace := t\<rparr>) p = lookup w p"
  by (simp add: lookup_def)










subsection \<open>The stream runner\<close>

lemma io_Copy_None:
  "io_Copy dst b = (None, dst') \<Longrightarrow> written dst' = written dst @ b"
  by (auto simp: io_Copy_def Writer_Write_def split: if_splits option.splits)

lemma Run_None:
  "Run f src dst = (None, dst') \<Longrightarrow>
     readErr src = None \<and>
     (\<exists>out. formatter f [] (pending src) = Inr out \<and> written dst' = written dst @ out)"
  by (auto simp: Run_def io_ReadAll_def split: option.splits sum.splits dest: io_Copy_None)

lemma Run_unbounded:
  "readErr src = None \<Longrightarrow> formatter f [] (pending src) = Inr out \<Longrightarrow> room dst = None \<Longrightarrow>
     Run f src dst = (None, dst\<lparr>written := written dst @ out\<rparr>)"
  by (simp add: Run_def io_ReadAll_def io_Copy_def Writer_Write_def)

lemma os_ReadFile_Inr:
  "os_ReadFile path w = (Inr c, w1) \<Longrightarrow> \<exists>m. lookup w1 path = Some (File c m)"
  by (auto simp: os_ReadFile_def syscall_def lookup_def
      split: list.splits option.splits node.splits if_splits)

lemma format_None:
  assumes "format f path w = (None, w')"
  shows "\<exists>input out m. fst (os_ReadFile path w) = Inr input \<and> formatter f path input = Inr out \<and>
           lookup w' path = Some (File out m)"
proof -
  obtain r w1 where rd: "os_ReadFile path w = (r, w1)" by force
  from assms rd obtain input where i: "r = Inr input"
    by (cases r) (auto simp: format_def)
  from assms rd i obtain out where o: "formatter f path input = Inr out"
    by (cases "formatter f path input") (auto simp: format_def)
  from os_ReadFile_Inr rd i obtain m where m: "lookup w1 path = Some (File input m)" by blast
  show ?thesis
  proof (cases "input = out")
    case True
    then have "w' = w1" using assms rd i o by (simp add: format_def)
    then show ?thesis using rd i o m True by auto
  next
    case False
    then have wr: "write path out w1 = (None, w')" using assms rd i o by (simp add: format_def)
    from write_files [OF wr] obtain m' where
      "files w' = AList.update (filepath_Clean path) (File out m') (files w1)" by auto
    moreover have "path \<noteq> []" using m by (auto simp: lookup_def split: if_splits)
    ultimately have "lookup w' path = Some (File out m')" by (simp add: lookup_files)
    then show ?thesis using rd i o by auto
  qed
qed

text \<open>
  Claim C9, as the code has it. \<open>Run\<close> on a reader that ends without error, with a
  formatter that accepts the input under the empty path and a writer with room, writes the
  formatter's whole result after what the writer already held. When \<open>Run\<close> succeeds on
  the input that a file holds, the per-file pipeline of \<open>Build\<close> succeeds on that file, and
  the formatter returns on that input the same for the file's path as for the empty path,
  the file then holds exactly the bytes \<open>Run\<close> wrote.
\<close>

theorem Run_agrees_with_format:
  "(readErr src = None \<and> formatter f [] (pending src) = Inr out \<and> room dst = None \<longrightarrow>
      Run f src dst = (None, dst\<lparr>written := written dst @ out\<rparr>)) \<and>
   (Run f src dst = (None, dst') \<and> fst (os_ReadFile path w) = Inr (pending src) \<and>
      formatter f path (pending src) = formatter f [] (pending src) \<and>
      format f path w = (None, w') \<longrightarrow>
      (\<exists>result m. formatter f [] (pending src) = Inr result \<and>
         written dst' = written dst @ result \<and>
         lookup w' path = Some (File result m)))"
proof (intro conjI impI)
  assume "readErr src = None \<and> formatter f [] (pending src) = Inr out \<and> room dst = None"
  then show "Run f src dst = (None, dst\<lparr>written := written dst @ out\<rparr>)"
    using Run_unbounded by blast
next
  assume a: "Run f src dst = (None, dst') \<and> fst (os_ReadFile path w) = Inr (pending src) \<and>
      formatter f path (pending src) = formatter f [] (pending src) \<and>
      format f path w = (None, w')"
  from Run_None [of f src dst dst'] a obtain result where
    r: "formatter f [] (pending src) = Inr result" "written dst' = written dst @ result" by auto
  from format_None [of f path w w'] a obtain out m where
    "formatter f path (pending src) = Inr out" "lookup w' path = Some (File out m)" by auto
  then have "lookup w' path = Some (File result m)" using a r(1) by simp
  then show "\<exists>result m. formatter f [] (pending src) = Inr result \<and>
         written dst' = written dst @ result \<and> lookup w' path = Some (File result m)"
    using r by blast
qed

theorem Run_agrees_with_format_witness:
  "Run (New dropSpaces) mainReader emptyWriter = (None, emptyWriter\<lparr>written := ''ab''\<rparr>) \<and>
   fst (os_ReadFile ''/proj/main.go'' projWorld) = Inr (pending mainReader) \<and>
   fst (format (New dropSpaces) ''/proj/main.go'' projWorld) = None \<and>
   (\<exists>m. lookup (snd (format (New dropSpaces) ''/proj/main.go'' projWorld)) ''/proj/main.go'' =
          Some (File ''ab'' m)) \<and>
   lookup (snd (snd (Build 1 (New dropSpaces) mainOnly projWorld))) ''/proj/main.go'' =
     Some (File ''ab'' 0x1A4)"
proof -
  have e: "readErr mainReader = None" "room emptyWriter = None" "written emptyWriter = []"
    "pending mainReader = ''a  b''"
    by (simp_all add: mainReader_def emptyWriter_def)
  have o: "formatter (New dropSpaces) [] (pending mainReader) = Inr ''ab''"
    by (simp add: New_def dropSpaces_def mainReader_def)
  have p: "formatter (New dropSpaces) ''/proj/main.go'' (pending mainReader) =
      formatter (New dropSpaces) [] (pending mainReader)"
    by (simp add: New_def dropSpaces_def)
  have rd: "fst (os_ReadFile ''/proj/main.go'' projWorld) = Inr (pending mainReader)"
    by code_simp
  have fm: "fst (format (New dropSpaces) ''/proj/main.go'' projWorld) = None"
    by code_simp
  have fm': "format (New dropSpaces) ''/proj/main.go'' projWorld =
      (None, snd (format (New dropSpaces) ''/proj/main.go'' projWorld))"
    using fm by (metis prod.collapse)
  have b: "lookup (snd (snd (Build 1 (New dropSpaces) mainOnly projWorld))) ''/proj/main.go'' =
     Some (File ''ab'' 0x1A4)"
    by code_simp
  note th = Run_agrees_with_format [of mainReader "New dropSpaces" "''ab''" emptyWriter
      "emptyWriter\<lparr>written := ''ab''\<rparr>" "''/proj/main.go''" projWorld
      "snd (format (New dropSpaces) ''/proj/main.go'' projWorld)"]
  have run: "Run (New dropSpaces) mainReader emptyWriter = (None, emptyWriter\<lparr>written := ''ab''\<rparr>)"
    using th e o by simp
  show ?thesis
    using th run rd fm fm' p o e b by auto
qed

text \<open>Against claim C9 as written (the same output for every formatter):
  \<open>stampFormatter\<close> puts the file name in front of the content. \<open>Build\<close> on
  \<open>/proj/main.go\<close> leaves the file with the path in front, \<open>Run\<close> on the same input
  writes it with the empty path in front.\<close>

theorem Run_differs_from_Build_counterexample:
  "fst (os_ReadFile ''/proj/main.go'' projWorld) = Inr (pending mainReader) \<and>
   fst (Build 1 (New stampFormatter) mainOnly projWorld) = None \<and>
   lookup (snd (snd (Build 1 (New stampFormatter) mainOnly projWorld))) ''/proj/main.go'' =
     Some (File ''/proj/main.go:a  b'' 0x1A4) \<and>
   Run (New stampFormatter) mainReader emptyWriter = (None, emptyWriter\<lparr>written := '':a  b''\<rparr>)"
  by code_simp

end
